theory Spec2Isabelle
  imports Complex_Main "HOL-Library.Sublist"
begin

section \<open>Data model\<close>

text \<open>
  The program is one Python script, \<^verbatim>\<open>app.py\<close>, over a pandas data frame. A frame is
  modelled by its column labels and its rows. A row carries the four columns the script
  reads: \<^verbatim>\<open>Type\<close>, \<^verbatim>\<open>Year\<close>, \<^verbatim>\<open>Genre(s)\<close> and \<^verbatim>\<open>Rating (Out of 5)\<close>; any further
  column of the file is carried along untouched by every operation and is left out. The type
  parameter is the type of the \<^verbatim>\<open>Year\<close> cells: raw cells as read from the file, integers
  after \<^verbatim>\<open>astype(int)\<close>. Ratings are rationals (the arithmetic of floats is not modelled),
  and the text cells are strings (missing values in them are not modelled).

  \<^verbatim>\<open>pd.DataFrame()\<close>, the frame of the loader's error branch, has no column and no row.
  Indexing a frame with a label that is not one of its columns raises \<^verbatim>\<open>KeyError\<close>.
\<close>

datatype error =
    ReadError
  | KeyError string
  | ValueError

record 'y row =
  Type :: string
  Year :: 'y
  Genres :: string
  Rating :: rat

record 'y frame =
  columns :: "string list"
  rows :: "'y row list"

definition DataFrame :: "'y frame" where
  "DataFrame = \<lparr>columns = [], rows = []\<rparr>"

definition and_then :: "error + 'a \<Rightarrow> ('a \<Rightarrow> error + 'b) \<Rightarrow> error + 'b" where
  "and_then m f = (case m of Inl e \<Rightarrow> Inl e | Inr x \<Rightarrow> f x)"

text \<open>\<^verbatim>\<open>df[label]\<close>: the series of one column, or \<^verbatim>\<open>KeyError\<close>.\<close>

definition getitem :: "'y frame \<Rightarrow> string \<Rightarrow> ('y row \<Rightarrow> 'a) \<Rightarrow> error + 'a list" where
  "getitem df label field =
     (if label \<in> set (columns df) then Inr (map field (rows df)) else Inl (KeyError label))"

text \<open>\<^verbatim>\<open>df[mask]\<close> with a boolean series aligned with the rows: the rows whose flag is set,
  in their order, under the same columns.\<close>

definition select :: "'y frame \<Rightarrow> bool list \<Rightarrow> 'y frame" where
  "select df flags = df\<lparr>rows := map fst (filter snd (zip (rows df) flags))\<rparr>"

text \<open>\<^verbatim>\<open>df.empty\<close>: no row or no column.\<close>

definition frame_empty :: "'y frame \<Rightarrow> bool" where
  "frame_empty df = (rows df = [] \<or> columns df = [])"

section \<open>The filter engine\<close>

text \<open>\<^verbatim>\<open>Series.isin(values)\<close>, \<^verbatim>\<open>Series.between(left, right)\<close> (both ends included) and
  Python's \<^verbatim>\<open>genre in x\<close> on two strings, which is the substring test.\<close>

definition isin :: "'a list \<Rightarrow> 'a list \<Rightarrow> bool list" where
  "isin series values = map (\<lambda>v. v \<in> set values) series"

definition between :: "int list \<Rightarrow> int \<Rightarrow> int \<Rightarrow> bool list" where
  "between series left right = map (\<lambda>v. left \<le> v \<and> v \<le> right) series"

fun str_in :: "string \<Rightarrow> string \<Rightarrow> bool" where
  "str_in genre [] = (genre = [])"
| "str_in genre (c # cs) = (prefix genre (c # cs) \<or> str_in genre cs)"

text \<open>
  \<^verbatim>\<open>
  def apply_filters(df):
      filtered = df[df["Type"].isin(type_filter)]
      filtered = filtered[filtered["Year"].between(year_range[0], year_range[1])]
      if genre_filter:
          genre_mask = filtered['Genre(s)'].apply(
              lambda x: any(genre in x for genre in genre_filter))
          filtered = filtered[genre_mask]
      return filtered
  \<close>
  The three widget values are globals of the script; they are parameters here.
\<close>

definition type_step :: "string list \<Rightarrow> int frame \<Rightarrow> error + int frame" where
  "type_step type_filter df =
     and_then (getitem df ''Type'' Type) (\<lambda>types. Inr (select df (isin types type_filter)))"

definition year_step :: "int \<times> int \<Rightarrow> int frame \<Rightarrow> error + int frame" where
  "year_step year_range filtered =
     and_then (getitem filtered ''Year'' Year)
       (\<lambda>years. Inr (select filtered (between years (fst year_range) (snd year_range))))"

definition genre_step :: "string list \<Rightarrow> int frame \<Rightarrow> error + int frame" where
  "genre_step genre_filter filtered =
     (if genre_filter \<noteq> [] then
        and_then (getitem filtered ''Genre(s)'' Genres)
          (\<lambda>series. let genre_mask = map (\<lambda>x. list_ex (\<lambda>genre. str_in genre x) genre_filter) series
                    in Inr (select filtered genre_mask))
      else Inr filtered)"

definition apply_filters :: "string list \<Rightarrow> string list \<Rightarrow> int \<times> int \<Rightarrow> int frame \<Rightarrow> error + int frame" where
  "apply_filters type_filter genre_filter year_range df =
     and_then (type_step type_filter df) (\<lambda>filtered.
     and_then (year_step year_range filtered) (\<lambda>filtered.
     genre_step genre_filter filtered))"

section \<open>The data loader\<close>

text \<open>
  \<^verbatim>\<open>
  def load_data():
      try:
          df = pd.read_csv("data.csv")
          df['Year'] = df['Year'].astype(int)
          return df
      except Exception as e:
          st.error(f"Error loading data: {e}")
          return pd.DataFrame()
  \<close>
  \<^verbatim>\<open>pd.read_csv\<close> is library code: its outcome, an exception or a frame of raw cells, is
  the input of the model. A raw \<^verbatim>\<open>Year\<close> cell is an integer, a float, a missing value or
  a text. \<^verbatim>\<open>astype(int)\<close> keeps an integer, truncates a float towards zero, raises on a
  missing value, and on a text does what Python's \<^verbatim>\<open>int\<close> does, which is a parameter.
  The loader returns the error it displayed, if any, and the frame.
\<close>

datatype cell = IntCell int | FloatCell rat | NaN | StrCell string

fun coerce_int :: "(string \<Rightarrow> int option) \<Rightarrow> cell \<Rightarrow> error + int" where
  "coerce_int int_of_str (IntCell i) = Inr i"
| "coerce_int int_of_str (FloatCell q) = Inr (if 0 \<le> q then \<lfloor>q\<rfloor> else \<lceil>q\<rceil>)"
| "coerce_int int_of_str NaN = Inl ValueError"
| "coerce_int int_of_str (StrCell s) =
     (case int_of_str s of None \<Rightarrow> Inl ValueError | Some i \<Rightarrow> Inr i)"

fun astype_int :: "(string \<Rightarrow> int option) \<Rightarrow> cell list \<Rightarrow> error + int list" where
  "astype_int int_of_str [] = Inr []"
| "astype_int int_of_str (c # cs) =
     and_then (coerce_int int_of_str c) (\<lambda>i.
     and_then (astype_int int_of_str cs) (\<lambda>is. Inr (i # is)))"

text \<open>\<^verbatim>\<open>df['Year'] = series\<close> on a frame that has the column: the cells are replaced row by
  row, the columns stay.\<close>

definition set_year :: "'y frame \<Rightarrow> 'z list \<Rightarrow> 'z frame" where
  "set_year df series =
     \<lparr>columns = columns df,
      rows = map (\<lambda>(r, y). \<lparr>Type = Type r, Year = y, Genres = Genres r, Rating = Rating r\<rparr>)
               (zip (rows df) series)\<rparr>"

definition load_data :: "(string \<Rightarrow> int option) \<Rightarrow> error + cell frame \<Rightarrow> error option \<times> int frame" where
  "load_data int_of_str read_csv =
     (case and_then read_csv (\<lambda>df.
           and_then (getitem df ''Year'' Year) (\<lambda>years.
           and_then (astype_int int_of_str years) (\<lambda>ints. Inr (set_year df ints)))) of
        Inr df \<Rightarrow> (None, df)
      | Inl e \<Rightarrow> (Some e, DataFrame))"

section \<open>The sidebar: filter options\<close>

text \<open>\<^verbatim>\<open>x.split(', ')\<close>: the text between the occurrences of the two-character separator,
  found from the left. The first argument is the token read so far, reversed.\<close>

fun split_from :: "string \<Rightarrow> string \<Rightarrow> string list" where
  "split_from cur [] = [rev cur]"
| "split_from cur [c] = [rev (c # cur)]"
| "split_from cur (c # d # cs) =
     (if c = CHR '','' \<and> d = CHR '' '' then rev cur # split_from [] cs
      else split_from (c # cur) (d # cs))"

definition str_split :: "string \<Rightarrow> string list" where
  "str_split x = split_from [] x"

text \<open>\<^verbatim>\<open>series.str.split(', ', expand=True).stack()\<close>: the tokens of every row, row after
  row. \<^verbatim>\<open>unique()\<close>: the distinct values in the order of first appearance.\<close>

definition stack_split :: "string list \<Rightarrow> string list" where
  "stack_split series = concat (map str_split series)"

fun unique :: "'a list \<Rightarrow> 'a list" where
  "unique [] = []"
| "unique (x # xs) = x # unique (filter (\<lambda>y. y \<noteq> x) xs)"

text \<open>\<^verbatim>\<open>int(series.min())\<close>: the minimum of an empty series is a missing value, on which
  \<^verbatim>\<open>int\<close> raises \<^verbatim>\<open>ValueError\<close>.\<close>

definition int_min :: "int list \<Rightarrow> error + int" where
  "int_min series = (case series of [] \<Rightarrow> Inl ValueError | x # xs \<Rightarrow> Inr (fold min xs x))"

definition int_max :: "int list \<Rightarrow> error + int" where
  "int_max series = (case series of [] \<Rightarrow> Inl ValueError | x # xs \<Rightarrow> Inr (fold max xs x))"

text \<open>
  \<^verbatim>\<open>
  type_filter = st.multiselect("Content Type", options=df["Type"].unique(), ...)
  genre_options = df['Genre(s)'].str.split(', ', expand=True).stack().unique()
  genre_filter = st.multiselect("Genres", options=genre_options, default=[], ...)
  year_range = st.slider("Release Year Range",
      min_value=int(df["Year"].min()), max_value=int(df["Year"].max()), ...)
  \<close>
  The model returns the options of the three widgets, in the order the script computes them.
\<close>

definition type_options :: "int frame \<Rightarrow> error + string list" where
  "type_options df = and_then (getitem df ''Type'' Type) (\<lambda>series. Inr (unique series))"

definition genre_options :: "int frame \<Rightarrow> error + string list" where
  "genre_options df =
     and_then (getitem df ''Genre(s)'' Genres) (\<lambda>series. Inr (unique (stack_split series)))"

definition year_bounds :: "int frame \<Rightarrow> error + int \<times> int" where
  "year_bounds df =
     and_then (getitem df ''Year'' Year) (\<lambda>series.
     and_then (int_min series) (\<lambda>min_value.
     and_then (int_max series) (\<lambda>max_value. Inr (min_value, max_value))))"

definition sidebar :: "int frame \<Rightarrow> error + string list \<times> string list \<times> (int \<times> int)" where
  "sidebar df =
     and_then (type_options df) (\<lambda>types.
     and_then (genre_options df) (\<lambda>genres.
     and_then (year_bounds df) (\<lambda>years. Inr (types, genres, years))))"

section \<open>Aggregation views\<close>

text \<open>What the main page shows, for the blocks that aggregate the filtered frame: the four
  headline metrics or the warning that replaces them, the chart of the yearly rollup, the
  two charts of the genre rollup, and the download button. The charts of the first tab and
  the table of the data explorer receive the filtered frame as it is and are left out.\<close>

datatype widget =
    Metrics nat "rat option" nat nat
  | Warning
  | TrendChart "(int \<times> rat option \<times> nat) list"
  | GenreCharts "(string \<times> nat) list" "(string \<times> nat) list"
  | DownloadButton

text \<open>The mean of a series; of an empty one it is a missing value.\<close>

definition mean :: "rat list \<Rightarrow> rat option" where
  "mean series = (if series = [] then None else Some (sum_list series / of_nat (length series)))"


text \<open>
  \<^verbatim>\<open>
  yearly_data = filtered_df.groupby('Year').agg(
      Average_Rating=('Rating (Out of 5)', 'mean'),
      Count=('Rating (Out of 5)', 'count')).reset_index()
  \<close>
  One group for each distinct year, in ascending order of the year.
\<close>

definition yearly_data :: "int frame \<Rightarrow> error + (int \<times> rat option \<times> nat) list" where
  "yearly_data filtered_df =
     and_then (getitem filtered_df ''Year'' Year) (\<lambda>years.
     and_then (getitem filtered_df ''Rating (Out of 5)'' Rating) (\<lambda>ratings.
       Inr (map (\<lambda>y. let group = map snd (filter (\<lambda>p. fst p = y) (zip years ratings))
                      in (y, mean group, length group))
              (sort (unique years)))))"

text \<open>
  \<^verbatim>\<open>
  if not filtered_df.empty:
      genre_df = filtered_df['Genre(s)'].str.split(', ', expand=True).stack()
                   .reset_index(level=1, drop=True).reset_index(name='Genre')
      genre_counts = genre_df['Genre'].value_counts().reset_index()
      ... px.bar(genre_counts.head(10), ...) ... px.treemap(genre_counts, ...)
  \<close>
  \<^verbatim>\<open>value_counts\<close> counts each distinct value and orders the counts from the largest
  down; values of equal count are kept here in the order of first appearance.
\<close>

definition value_counts :: "string list \<Rightarrow> (string \<times> nat) list" where
  "value_counts series =
     sort_key (\<lambda>p. - int (snd p)) (map (\<lambda>t. (t, count_list series t)) (unique series))"

definition genre_counts :: "int frame \<Rightarrow> error + (string \<times> nat) list" where
  "genre_counts filtered_df =
     and_then (getitem filtered_df ''Genre(s)'' Genres) (\<lambda>series.
       Inr (value_counts (stack_split series)))"

definition genre_breakdown :: "int frame \<Rightarrow> error + widget list" where
  "genre_breakdown filtered_df =
     (if \<not> frame_empty filtered_df then
        and_then (genre_counts filtered_df) (\<lambda>counts. Inr [GenreCharts (take 10 counts) counts])
      else Inr [])"



section \<open>Tables the filter engine accepts\<close>

text \<open>The filter engine reads three columns. The script reaches it only after the sidebar
  has read the same three, so every frame it is run on has them.\<close>

definition filterable :: "int frame \<Rightarrow> bool" where
  "filterable df =
     (''Type'' \<in> set (columns df) \<and> ''Year'' \<in> set (columns df) \<and> ''Genre(s)'' \<in> set (columns df))"

text \<open>The condition the three steps of the filter engine put on a row.\<close>

definition kept :: "string list \<Rightarrow> string list \<Rightarrow> int \<times> int \<Rightarrow> int row \<Rightarrow> bool" where
  "kept type_filter genre_filter year_range r =
     (Type r \<in> set type_filter \<and>
      fst year_range \<le> Year r \<and> Year r \<le> snd year_range \<and>
      (genre_filter = [] \<or> list_ex (\<lambda>genre. str_in genre (Genres r)) genre_filter))"

section \<open>Example tables\<close>

text \<open>A table of four titles, and the same table as read from the file, before the years
  are coerced.\<close>

definition sample :: "int frame" where
  "sample =
     \<lparr>columns = [''Title'', ''Type'', ''Year'', ''Genre(s)'', ''Rating (Out of 5)''],
      rows = [\<lparr>Type = ''Movie'', Year = 2019, Genres = ''Comedy, Drama'', Rating = 4\<rparr>,
              \<lparr>Type = ''Movie'', Year = 2020, Genres = ''Drama, Action'', Rating = 5\<rparr>,
              \<lparr>Type = ''TV Show'', Year = 2020, Genres = ''Romantic Comedy'', Rating = 3\<rparr>,
              \<lparr>Type = ''TV Show'', Year = 2021, Genres = ''Comedy'', Rating = 7 / 2\<rparr>]\<rparr>"


text \<open>The two-title subset of the genre rollup's example.\<close>

definition comedy_subset :: "int frame" where
  "comedy_subset =
     \<lparr>columns = [''Title'', ''Type'', ''Year'', ''Genre(s)'', ''Rating (Out of 5)''],
      rows = [\<lparr>Type = ''Movie'', Year = 2019, Genres = ''Comedy, Drama'', Rating = 4\<rparr>,
              \<lparr>Type = ''TV Show'', Year = 2021, Genres = ''Comedy'', Rating = 7 / 2\<rparr>]\<rparr>"

text \<open>A reading of texts as integers that accepts no text.\<close>

definition no_text :: "string \<Rightarrow> int option" where
  "no_text s = None"

section \<open>Facts about masks and steps\<close>

lemma and_then_Inr [simp]: "and_then (Inr x) f = f x"
  by (simp add: and_then_def)

lemma and_then_Inl [simp]: "and_then (Inl e) f = Inl e"
  by (simp add: and_then_def)

lemma select_map: "select df (map p (rows df)) = df\<lparr>rows := filter p (rows df)\<rparr>"
proof -
  have "map fst (filter snd (zip xs (map p xs))) = filter p xs" for xs :: "'a row list"
    by (induction xs) simp_all
  then show ?thesis by (simp add: select_def)
qed

lemma getitem_present:
  "label \<in> set (columns df) \<Longrightarrow> getitem df label field = Inr (map field (rows df))"
  by (simp add: getitem_def)


lemma type_step_rows:
  assumes "''Type'' \<in> set (columns df)"
  shows "type_step type_filter df = Inr (df\<lparr>rows := filter (\<lambda>r. Type r \<in> set type_filter) (rows df)\<rparr>)"
proof -
  have "isin (map Type (rows df)) type_filter = map (\<lambda>r. Type r \<in> set type_filter) (rows df)"
    by (simp add: isin_def)
  then show ?thesis
    using assms by (simp add: type_step_def getitem_present and_then_def select_map)
qed

lemma year_step_rows:
  assumes "''Year'' \<in> set (columns df)"
  shows "year_step year_range df =
           Inr (df\<lparr>rows := filter (\<lambda>r. fst year_range \<le> Year r \<and> Year r \<le> snd year_range) (rows df)\<rparr>)"
proof -
  have "between (map Year (rows df)) lo hi = map (\<lambda>r. lo \<le> Year r \<and> Year r \<le> hi) (rows df)"
    for lo hi by (simp add: between_def)
  then show ?thesis
    using assms by (simp add: year_step_def getitem_present and_then_def select_map)
qed

lemma genre_step_rows:
  assumes "''Genre(s)'' \<in> set (columns df)"
  shows "genre_step genre_filter df =
           Inr (df\<lparr>rows := filter (\<lambda>r. genre_filter = [] \<or>
                                         list_ex (\<lambda>genre. str_in genre (Genres r)) genre_filter) (rows df)\<rparr>)"
proof (cases "genre_filter = []")
  case True
  then show ?thesis by (simp add: genre_step_def)
next
  case False
  have "map (\<lambda>x. list_ex (\<lambda>genre. str_in genre x) genre_filter) (map Genres (rows df))
          = map (\<lambda>r. list_ex (\<lambda>genre. str_in genre (Genres r)) genre_filter) (rows df)"
    by simp
  then show ?thesis
    using assms False
    by (simp add: genre_step_def getitem_present and_then_def select_map del: map_map)
qed

lemma apply_filters_rows:
  assumes "filterable df"
  shows "apply_filters type_filter genre_filter year_range df =
           Inr (df\<lparr>rows := filter (kept type_filter genre_filter year_range) (rows df)\<rparr>)"
proof -
  define d1 where "d1 = df\<lparr>rows := filter (\<lambda>r. Type r \<in> set type_filter) (rows df)\<rparr>"
  define d2 where
    "d2 = d1\<lparr>rows := filter (\<lambda>r. fst year_range \<le> Year r \<and> Year r \<le> snd year_range) (rows d1)\<rparr>"
  define d3 where
    "d3 = d2\<lparr>rows := filter (\<lambda>r. genre_filter = [] \<or>
                  list_ex (\<lambda>genre. str_in genre (Genres r)) genre_filter) (rows d2)\<rparr>"
  from assms have c: "''Type'' \<in> set (columns df)" "''Year'' \<in> set (columns d1)"
    "''Genre(s)'' \<in> set (columns d2)"
    by (simp_all add: filterable_def d1_def d2_def)
  have s1: "type_step type_filter df = Inr d1"
    unfolding d1_def by (rule type_step_rows [OF c(1)])
  have s2: "year_step year_range d1 = Inr d2"
    unfolding d2_def by (rule year_step_rows [OF c(2)])
  have s3: "genre_step genre_filter d2 = Inr d3"
    unfolding d3_def by (rule genre_step_rows [OF c(3)])
  have "apply_filters type_filter genre_filter year_range df = Inr d3"
    by (simp add: apply_filters_def and_then_def s1 s2 s3)
  moreover have "d3 = df\<lparr>rows := filter (kept type_filter genre_filter year_range) (rows df)\<rparr>"
    unfolding d3_def d2_def d1_def
    by (simp add: kept_def [abs_def] conj_commute conj_left_commute cong: conj_cong)
  ultimately show ?thesis by simp
qed



section \<open>The substring test and the tokens of a cell\<close>

text \<open>The test \<^verbatim>\<open>genre in x\<close> is the contiguous-sublist relation, and every token of a
  cell occurs in the cell. So a row with a token that equals a selected genre passes the
  genre step; the converse fails (see C1).\<close>

lemma str_in_sublist: "str_in genre x \<longleftrightarrow> sublist genre x"
  by (induction x) (simp_all add: sublist_Cons_right)

lemma split_from_tokens:
  "t \<in> set (split_from cur s) \<Longrightarrow> (\<exists>p. prefix p s \<and> t = rev cur @ p) \<or> sublist t s"
proof (induction cur s rule: split_from.induct)
  case (1 cur)
  then show ?case by simp
next
  case (2 cur c)
  then show ?case by auto
next
  case (3 cur c d cs)
  show ?case
  proof (cases "c = CHR '','' \<and> d = CHR '' ''")
    case True
    with 3 have "t = rev cur \<or> t \<in> set (split_from [] cs)" by auto
    then show ?thesis
    proof
      assume "t = rev cur"
      then have "prefix [] (c # d # cs) \<and> t = rev cur @ []" by simp
      then show ?thesis by blast
    next
      assume "t \<in> set (split_from [] cs)"
      with 3(1) True have "(\<exists>p. prefix p cs \<and> t = rev [] @ p) \<or> sublist t cs" by blast
      then have "sublist t cs" by (auto intro: prefix_imp_sublist)
      then show ?thesis by (simp add: sublist_Cons_right)
    qed
  next
    case False
    with 3 have "t \<in> set (split_from (c # cur) (d # cs))" by auto
    with 3(2) False have "(\<exists>p. prefix p (d # cs) \<and> t = rev (c # cur) @ p) \<or> sublist t (d # cs)"
      by blast
    then show ?thesis
    proof
      assume "\<exists>p. prefix p (d # cs) \<and> t = rev (c # cur) @ p"
      then obtain p where "prefix p (d # cs)" "t = rev cur @ (c # p)" by auto
      then have "prefix (c # p) (c # d # cs) \<and> t = rev cur @ (c # p)" by simp
      then show ?thesis by blast
    next
      assume "sublist t (d # cs)"
      then show ?thesis by (simp add: sublist_Cons_right)
    qed
  qed
qed

lemma token_str_in: "t \<in> set (str_split x) \<Longrightarrow> str_in t x"
  using split_from_tokens [of t "[]" x]
  by (auto simp: str_split_def str_in_sublist intro: prefix_imp_sublist)

lemma token_match_passes_genre_step:
  assumes "\<exists>t \<in> set (str_split (Genres r)). t \<in> set genre_filter"
  shows "list_ex (\<lambda>genre. str_in genre (Genres r)) genre_filter"
  using assms by (auto simp: list_ex_iff dest: token_str_in)

section \<open>The filter engine: results\<close>





text \<open>
  C6. The year step keeps a row exactly when its year lies between the two bounds, both
  included; when the lower bound is not above the upper one, a row whose year is one of the
  bounds is kept.
\<close>

theorem year_range_inclusive:
  assumes "''Year'' \<in> set (columns df)"
  shows "\<exists>d. year_step (minYear, maxYear) df = Inr d \<and> columns d = columns df \<and>
             rows d = filter (\<lambda>r. minYear \<le> Year r \<and> Year r \<le> maxYear) (rows df) \<and>
             (\<forall>r \<in> set (rows df). r \<in> set (rows d) \<longleftrightarrow> minYear \<le> Year r \<and> Year r \<le> maxYear) \<and>
             (minYear \<le> maxYear \<longrightarrow>
                (\<forall>r \<in> set (rows df). Year r = minYear \<or> Year r = maxYear \<longrightarrow> r \<in> set (rows d)))"
  using year_step_rows [OF assms, of "(minYear, maxYear)"] by auto

theorem year_range_inclusive_witness:
  "''Year'' \<in> set (columns sample) \<and> (2019::int) \<le> 2020 \<and>
   (\<exists>d. year_step (2019, 2020) sample = Inr d \<and> columns d = columns sample \<and>
        rows d = filter (\<lambda>r. 2019 \<le> Year r \<and> Year r \<le> 2020) (rows sample) \<and>
        (\<forall>r \<in> set (rows sample). r \<in> set (rows d) \<longleftrightarrow> 2019 \<le> Year r \<and> Year r \<le> 2020) \<and>
        (\<forall>r \<in> set (rows sample). Year r = 2019 \<or> Year r = 2020 \<longrightarrow> r \<in> set (rows d)))"
proof -
  have h: "''Year'' \<in> set (columns sample)" by (simp add: sample_def)
  show ?thesis
    using h year_range_inclusive [OF h, of 2019 2020] by simp
qed

text \<open>
  C10. Selecting more genres keeps more rows: when a non-empty genre selection is
  contained in a second one, every row the filter engine keeps under the first selection
  is kept under the second, the other two selections being the same.
\<close>

theorem genre_filter_monotone:
  assumes "filterable df" and "G \<noteq> []" and "set G \<subseteq> set G'"
  shows "\<exists>d d'. apply_filters type_filter G year_range df = Inr d \<and>
                apply_filters type_filter G' year_range df = Inr d' \<and>
                set (rows d) \<subseteq> set (rows d') \<and> subseq (rows d) (rows d')"
proof -
  let ?P = "kept type_filter G year_range" and ?Q = "kept type_filter G' year_range"
  have imp: "?P r \<Longrightarrow> ?Q r" for r
    using assms(2,3) by (auto simp: kept_def list_ex_iff)
  then have "filter ?P (rows df) = filter ?P (filter ?Q (rows df))"
    by (auto intro: filter_cong)
  then have "subseq (filter ?P (rows df)) (filter ?Q (rows df))"
    by (metis subseq_filter_left)
  moreover have "set (filter ?P (rows df)) \<subseteq> set (filter ?Q (rows df))"
    using imp by auto
  ultimately show ?thesis
    by (simp add: apply_filters_rows [OF assms(1)])
qed

theorem genre_filter_monotone_witness:
  "filterable sample \<and> [''Action''] \<noteq> [] \<and> set [''Action''] \<subseteq> set [''Action'', ''Comedy''] \<and>
   (\<exists>d d'. apply_filters [''Movie'', ''TV Show''] [''Action''] (2019, 2021) sample = Inr d \<and>
           apply_filters [''Movie'', ''TV Show''] [''Action'', ''Comedy''] (2019, 2021) sample = Inr d' \<and>
           set (rows d) \<subseteq> set (rows d') \<and> subseq (rows d) (rows d'))"
proof -
  have h: "filterable sample" by (simp add: sample_def filterable_def)
  have g: "[''Action''] \<noteq> []" "set [''Action''] \<subseteq> set [''Action'', ''Comedy'']" by simp_all
  show ?thesis
    using h g genre_filter_monotone [OF h g, of "[''Movie'', ''TV Show'']" "(2019, 2021)"]
    by simp
qed

text \<open>
  C1. The genre step tests whether a selected genre occurs inside the text of the
  \<^verbatim>\<open>Genre(s)\<close> cell, not whether it is one of its tokens. In the example table
  \<^verbatim>\<open>Comedy\<close> is one of the genre options, and under the selection of \<^verbatim>\<open>Comedy\<close> alone
  the title whose only genre is \<^verbatim>\<open>Romantic Comedy\<close> is kept, although no token of its
  cell equals \<^verbatim>\<open>Comedy\<close>. The two titles of the specification's example behave as it says: the title
  with \<^verbatim>\<open>Comedy, Drama\<close> is kept, the title with \<^verbatim>\<open>Drama, Action\<close> is not.
\<close>

theorem genre_filter_keeps_substring_match:
  "sidebar sample =
     Inr ([''Movie'', ''TV Show''], [''Comedy'', ''Drama'', ''Action'', ''Romantic Comedy''],
          (2019, 2021)) \<and>
   apply_filters [''Movie'', ''TV Show''] [''Comedy''] (2019, 2021) sample =
     Inr (sample\<lparr>rows :=
            [\<lparr>Type = ''Movie'', Year = 2019, Genres = ''Comedy, Drama'', Rating = 4\<rparr>,
             \<lparr>Type = ''TV Show'', Year = 2020, Genres = ''Romantic Comedy'', Rating = 3\<rparr>,
             \<lparr>Type = ''TV Show'', Year = 2021, Genres = ''Comedy'', Rating = 7 / 2\<rparr>]\<rparr>) \<and>
   str_split ''Romantic Comedy'' = [''Romantic Comedy'']"
  by code_simp

section \<open>The data loader: results\<close>






section \<open>The sidebar: results\<close>

text \<open>
  C2. When the file cannot be read the loader returns \<^verbatim>\<open>pd.DataFrame()\<close>, which has
  no column. On that frame the sidebar does not return option sets: its first statement,
  \<^verbatim>\<open>df["Type"]\<close>, raises \<^verbatim>\<open>KeyError\<close>, and so does each of the three derivations on its
  own.
\<close>

theorem load_failure_breaks_sidebar:
  "load_data no_text (Inl ReadError) = (Some ReadError, DataFrame) \<and>
   sidebar DataFrame = Inl (KeyError ''Type'') \<and>
   type_options DataFrame = Inl (KeyError ''Type'') \<and>
   genre_options DataFrame = Inl (KeyError ''Genre(s)'') \<and>
   year_bounds DataFrame = Inl (KeyError ''Year'')"
  by code_simp

section \<open>Aggregation views: results\<close>

lemma unique_set [simp]: "set (unique xs) = set xs"
  by (induction xs rule: unique.induct) auto

lemma unique_distinct [simp]: "distinct (unique xs)"
  by (induction xs rule: unique.induct) auto

lemma count_list_concat:
  "count_list (concat xss) x = sum_list (map (\<lambda>xs. count_list xs x) xss)"
  by (induction xss) simp_all

lemma value_counts_set:
  "set (value_counts series) = (\<lambda>t. (t, count_list series t)) ` set series"
  by (simp add: value_counts_def)

lemma value_counts_distinct: "distinct (map fst (value_counts series))"
  by (simp add: value_counts_def distinct_map inj_on_def)

lemma sorted_map_desc:
  "sorted (map (\<lambda>p. - int (snd p)) xs) \<Longrightarrow> sorted_wrt (\<lambda>p q. snd q \<le> snd p) xs"
  by (induction xs) auto

lemma value_counts_sorted: "sorted_wrt (\<lambda>p q. snd q \<le> snd p) (value_counts series)"
  unfolding value_counts_def by (rule sorted_map_desc) simp

text \<open>
  C7. On a filtered frame that is not empty the genre block shows one pair of charts, the
  first over the first ten entries of the genre counts and the second over all of them.
  The counts have one entry for each distinct token of the \<^verbatim>\<open>Genre(s)\<close> cells split on
  \<^verbatim>\<open>", "\<close>; the count of a token is the sum over the rows of its occurrences in the row's
  split cell; and the entries are in descending order of their counts. On the cells
  \<^verbatim>\<open>Comedy, Drama\<close> and \<^verbatim>\<open>Comedy\<close> the counts are Comedy 2, then Drama 1.
\<close>

theorem genre_rollup:
  assumes "\<not> frame_empty filtered_df" and "''Genre(s)'' \<in> set (columns filtered_df)"
  shows "(\<exists>counts. genre_breakdown filtered_df = Inr [GenreCharts (take 10 counts) counts] \<and>
            distinct (map fst counts) \<and>
            fst ` set counts = set (concat (map (\<lambda>r. str_split (Genres r)) (rows filtered_df))) \<and>
            (\<forall>(g, n) \<in> set counts.
               n = sum_list (map (\<lambda>r. count_list (str_split (Genres r)) g) (rows filtered_df))) \<and>
            sorted_wrt (\<lambda>p q. snd q \<le> snd p) counts) \<and>
         value_counts (stack_split [''Comedy, Drama'', ''Comedy'']) = [(''Comedy'', 2), (''Drama'', 1)]"
proof -
  let ?tokens = "stack_split (map Genres (rows filtered_df))"
  let ?counts = "value_counts ?tokens"
  have t: "?tokens = concat (map (\<lambda>r. str_split (Genres r)) (rows filtered_df))"
    by (simp add: stack_split_def comp_def)
  have 1: "genre_breakdown filtered_df = Inr [GenreCharts (take 10 ?counts) ?counts]"
    using assms by (simp add: genre_breakdown_def genre_counts_def getitem_present)
  have 2: "fst ` set ?counts = set (concat (map (\<lambda>r. str_split (Genres r)) (rows filtered_df)))"
    unfolding value_counts_set t [symmetric] by (simp add: image_image)
  have 3: "\<forall>(g, n) \<in> set ?counts.
             n = sum_list (map (\<lambda>r. count_list (str_split (Genres r)) g) (rows filtered_df))"
    unfolding value_counts_set by (auto simp: t count_list_concat comp_def)
  have 4: "value_counts (stack_split [''Comedy, Drama'', ''Comedy'']) = [(''Comedy'', 2), (''Drama'', 1)]"
    by code_simp
  show ?thesis
    using 1 2 3 4 value_counts_distinct [of ?tokens] value_counts_sorted [of ?tokens] by blast
qed

theorem genre_rollup_witness:
  "\<not> frame_empty comedy_subset \<and> ''Genre(s)'' \<in> set (columns comedy_subset) \<and>
   genre_breakdown comedy_subset =
     Inr [GenreCharts [(''Comedy'', 2), (''Drama'', 1)] [(''Comedy'', 2), (''Drama'', 1)]] \<and>
   (\<exists>counts. genre_breakdown comedy_subset = Inr [GenreCharts (take 10 counts) counts] \<and>
      distinct (map fst counts) \<and>
      fst ` set counts = set (concat (map (\<lambda>r. str_split (Genres r)) (rows comedy_subset))) \<and>
      (\<forall>(g, n) \<in> set counts.
         n = sum_list (map (\<lambda>r. count_list (str_split (Genres r)) g) (rows comedy_subset))) \<and>
      sorted_wrt (\<lambda>p q. snd q \<le> snd p) counts)"
proof -
  have h: "\<not> frame_empty comedy_subset" "''Genre(s)'' \<in> set (columns comedy_subset)"
    by (simp_all add: comedy_subset_def frame_empty_def)
  have e: "genre_breakdown comedy_subset =
     Inr [GenreCharts [(''Comedy'', 2), (''Drama'', 1)] [(''Comedy'', 2), (''Drama'', 1)]]"
    by code_simp
  show ?thesis
    using h e genre_rollup [OF h] by blast
qed

text \<open>Every group of the yearly rollup has at least one row, so each of its means is the
  mean of a series that is not empty.\<close>

lemma yearly_data_groups:
  assumes "yearly_data filtered_df = Inr groups"
  shows "\<forall>(y, m, n) \<in> set groups. 0 < n \<and> m \<noteq> None"
proof -
  have c: "''Year'' \<in> set (columns filtered_df)" "''Rating (Out of 5)'' \<in> set (columns filtered_df)"
    using assms by (auto simp: yearly_data_def getitem_def split: if_splits)
  have ne: "map snd (filter (\<lambda>p. fst p = Year r) (zip (map Year rs) (map Rating rs))) \<noteq> []"
    if "r \<in> set rs" for r :: "int row" and rs
    using that by (induction rs) auto
  show ?thesis
    using assms c ne [of _ "rows filtered_df"]
    by (auto simp: yearly_data_def getitem_present Let_def mean_def)
qed




end
